theory Spec2Isabelle
  imports Main
begin

section \<open>The pseudo-Boolean theory plugin (src/smt/theory_pb.h)\<close>

text \<open>
  A shallow embedding of the declarations and inline member functions of
  \<^verbatim>\<open>class theory_pb\<close>. The header holds the data model (\<^verbatim>\<open>arg_t\<close>,
  \<^verbatim>\<open>ineq\<close>, \<^verbatim>\<open>card\<close>, \<^verbatim>\<open>var_info\<close>, \<^verbatim>\<open>row_info\<close>, \<^verbatim>\<open>stats\<close>) and the bodies
  of the accessors, of \<^verbatim>\<open>ineq::find_lit\<close> and of \<^verbatim>\<open>internalize_term\<close>; every other
  member function is only declared there.
\<close>

subsection \<open>Types the header takes from the rest of the solver\<close>

text \<open>
  Modelled from the spec: \<^verbatim>\<open>literal\<close> (smt_literal.h is not part of the sources).
  A literal is a proposition or its negation: a Boolean variable \<open>var\<close> and a
  \<open>sign\<close>, which is true for the negated literal. \<^verbatim>\<open>bool_var\<close> and \<^verbatim>\<open>unsigned\<close>
  are natural numbers; no operation modelled here counts beyond the size of a vector.
\<close>

datatype smt_literal = Lit (var: nat) (sign: bool)

text \<open>\<^verbatim>\<open>~l\<close> and \<^verbatim>\<open>l.neg()\<close>: the complementary literal.\<close>

definition lit_neg :: "smt_literal \<Rightarrow> smt_literal" where
  "lit_neg l = Lit (var l) (\<not> sign l)"

text \<open>\<^verbatim>\<open>lbool\<close>: the three truth values of the search engine.\<close>

datatype lbool = l_false | l_undef | l_true

text \<open>
  What goes wrong at run time: a read past the end of a vector, a failed \<^verbatim>\<open>SASSERT\<close>
  (compiled in only in the verification build), and \<^verbatim>\<open>UNREACHABLE()\<close>.
\<close>

datatype error = OutOfRange | AssertionViolation | UnreachableReached

subsection \<open>arg\_t\<close>

text \<open>
  \<^verbatim>\<open>struct arg_t : public vector<std::pair<literal, numeral> >\<close> with the bound
  \<^verbatim>\<open>m_k\<close>. \<^verbatim>\<open>numeral\<close> is the solver's \<^verbatim>\<open>rational\<close>; the coefficients and bounds of
  pseudo-Boolean constraints are integers (the header reads them through
  \<^verbatim>\<open>to_mpq().numerator()\<close>), so they are modelled as \<open>int\<close>.
\<close>

record arg_t =
  elems :: "(smt_literal \<times> int) list"
  m_k :: int

definition arg_k :: "arg_t \<Rightarrow> int" where
  "arg_k a = m_k a"

definition arg_size :: "arg_t \<Rightarrow> nat" where
  "arg_size a = length (elems a)"

text \<open>\<^verbatim>\<open>(*this)[i]\<close>: a read at an index that is not below the size is an error.\<close>

definition arg_at :: "arg_t \<Rightarrow> nat \<Rightarrow> error + (smt_literal \<times> int)" where
  "arg_at a i = (if i < arg_size a then Inr (elems a ! i) else Inl OutOfRange)"

definition arg_lit :: "arg_t \<Rightarrow> nat \<Rightarrow> error + smt_literal" where
  "arg_lit a i = (case arg_at a i of Inl e \<Rightarrow> Inl e | Inr p \<Rightarrow> Inr (fst p))"

definition arg_coeff :: "arg_t \<Rightarrow> nat \<Rightarrow> error + int" where
  "arg_coeff a i = (case arg_at a i of Inl e \<Rightarrow> Inl e | Inr p \<Rightarrow> Inr (snd p))"

text \<open>\<^verbatim>\<open>arg_t::kind_hash\<close>: the hash of the kind of an argument list is its size.\<close>

definition kind_hash :: "arg_t \<Rightarrow> nat" where
  "kind_hash a = arg_size a"

subsection \<open>stats\<close>

record stats =
  m_num_conflicts :: nat
  m_num_propagations :: nat
  m_num_predicates :: nat
  m_num_compiles :: nat
  m_num_compiled_vars :: nat
  m_num_compiled_clauses :: nat

text \<open>\<^verbatim>\<open>stats::reset\<close> (and the constructor, which calls it): every counter is zero.\<close>

definition stats_reset :: stats where
  "stats_reset =
     \<lparr>m_num_conflicts = 0, m_num_propagations = 0, m_num_predicates = 0,
      m_num_compiles = 0, m_num_compiled_vars = 0, m_num_compiled_clauses = 0\<rparr>"

subsection \<open>ineq\<close>

text \<open>
  \<^verbatim>\<open>struct ineq\<close>. \<^verbatim>\<open>arg_t m_args[2]\<close> is the pair \<open>m_args_0\<close>, \<open>m_args_1\<close>; the
  \<^verbatim>\<open>scoped_mpz\<close> fields are integers. The reference to the shared \<^verbatim>\<open>mpz\<close> manager
  holds no state of the constraint and is left out.
\<close>

record ineq =
  m_lit :: smt_literal
  m_is_eq :: bool
  m_args_0 :: arg_t
  m_args_1 :: arg_t
  m_max_watch :: int
  m_watch_sz :: nat
  m_watch_sum :: int
  m_nfixed :: nat
  m_max_sum :: int
  m_min_sum :: int
  m_ineq_num_propagations :: nat
  m_ineq_compilation_threshold :: nat
  m_ineq_compiled :: lbool

text \<open>\<^verbatim>\<open>args()\<close> is \<^verbatim>\<open>m_args[m_lit.sign()]\<close>.\<close>

definition args :: "ineq \<Rightarrow> arg_t" where
  "args c = (if sign (m_lit c) then m_args_1 c else m_args_0 c)"

definition ineq_lit :: "ineq \<Rightarrow> smt_literal" where
  "ineq_lit c = m_lit c"

definition ineq_k :: "ineq \<Rightarrow> int" where
  "ineq_k c = m_k (args c)"

text \<open>\<^verbatim>\<open>lit(i)\<close> is \<^verbatim>\<open>args()[i].first\<close> and \<^verbatim>\<open>coeff(i)\<close> is \<^verbatim>\<open>args()[i].second\<close>.\<close>

definition lit :: "ineq \<Rightarrow> nat \<Rightarrow> error + smt_literal" where
  "lit c i = arg_lit (args c) i"

definition coeff :: "ineq \<Rightarrow> nat \<Rightarrow> error + int" where
  "coeff c i = arg_coeff (args c) i"

definition size_ineq :: "ineq \<Rightarrow> nat" where
  "size_ineq c = arg_size (args c)"

definition watch_sum :: "ineq \<Rightarrow> int" where
  "watch_sum c = m_watch_sum c"

definition max_watch :: "ineq \<Rightarrow> int" where
  "max_watch c = m_max_watch c"

definition set_max_watch :: "ineq \<Rightarrow> int \<Rightarrow> ineq" where
  "set_max_watch c n = c\<lparr>m_max_watch := n\<rparr>"

definition watch_size :: "ineq \<Rightarrow> nat" where
  "watch_size c = m_watch_sz c"

definition min_sum :: "ineq \<Rightarrow> int" where
  "min_sum c = m_min_sum c"

definition max_sum :: "ineq \<Rightarrow> int" where
  "max_sum c = m_max_sum c"

definition nfixed :: "ineq \<Rightarrow> nat" where
  "nfixed c = m_nfixed c"

definition vwatch_initialized :: "ineq \<Rightarrow> bool" where
  "vwatch_initialized c = (max_sum c \<noteq> 0)"

definition vwatch_reset :: "ineq \<Rightarrow> ineq" where
  "vwatch_reset c = c\<lparr>m_min_sum := 0, m_max_sum := 0, m_nfixed := 0\<rparr>"

definition is_eq :: "ineq \<Rightarrow> bool" where
  "is_eq c = m_is_eq c"

definition is_ge :: "ineq \<Rightarrow> bool" where
  "is_ge c = (\<not> m_is_eq c)"

text \<open>
  \<^verbatim>\<open>ineq::find_lit\<close>:
  \<^verbatim>\<open>while (lit(begin).var() != v) { ++begin; SASSERT(begin < end); } return begin;\<close>
  The flag \<open>dbg\<close> says whether \<^verbatim>\<open>SASSERT\<close> is compiled in. Each turn of the loop
  reads \<^verbatim>\<open>lit(begin)\<close> first; a read at or past \<^verbatim>\<open>size()\<close> ends the scan with
  \<open>OutOfRange\<close>. \<^verbatim>\<open>++begin\<close> cannot wrap before that read: \<^verbatim>\<open>begin\<close> is below the
  size of a vector when it is incremented.
\<close>

function find_lit :: "bool \<Rightarrow> ineq \<Rightarrow> nat \<Rightarrow> nat \<Rightarrow> nat \<Rightarrow> error + nat" where
  "find_lit dbg c v begin end =
     (case lit c begin of
        Inl e \<Rightarrow> Inl e
      | Inr l \<Rightarrow>
          if var l = v then Inr begin
          else if dbg \<and> \<not> Suc begin < end then Inl AssertionViolation
          else find_lit dbg c v (Suc begin) end)"
  by pat_completeness auto
termination
  by (relation "measure (\<lambda>(dbg, c, v, b, e). size_ineq c - b)")
     (auto simp: lit_def arg_lit_def arg_at_def size_ineq_def split: if_splits sum.splits)

subsection \<open>card\<close>

text \<open>\<^verbatim>\<open>class card\<close>: a cardinality constraint, \<^verbatim>\<open>args >= bound\<close>.\<close>

record card =
  card_lit :: smt_literal
  card_args :: "smt_literal list"
  card_bound :: nat
  card_num_propagations :: nat
  card_compilation_threshold :: nat
  card_compiled :: lbool

text \<open>The constructor \<^verbatim>\<open>card(literal l, unsigned bound)\<close>.\<close>

definition mk_card :: "smt_literal \<Rightarrow> nat \<Rightarrow> card" where
  "mk_card l bound =
     \<lparr>card_lit = l, card_args = [], card_bound = bound, card_num_propagations = 0,
      card_compilation_threshold = 0, card_compiled = l_false\<rparr>"

definition card_k :: "card \<Rightarrow> nat" where
  "card_k c = card_bound c"

definition card_size :: "card \<Rightarrow> nat" where
  "card_size c = length (card_args c)"

definition card_lit_at :: "card \<Rightarrow> nat \<Rightarrow> error + smt_literal" where
  "card_lit_at c i = (if i < card_size c then Inr (card_args c ! i) else Inl OutOfRange)"

subsection \<open>row\_info, var\_info and the state of the plugin\<close>

record row_info =
  m_slack :: nat
  m_bound :: int
  m_rep :: arg_t

text \<open>The default constructor \<^verbatim>\<open>row_info()\<close> sets the slack variable to 0.\<close>

definition row_info_default :: row_info where
  "row_info_default = \<lparr>m_slack = 0, m_bound = 0, m_rep = \<lparr>elems = [], m_k = 0\<rparr>\<rparr>"

text \<open>
  \<^verbatim>\<open>struct var_info\<close>. A pointer is \<open>None\<close> when it is null. A watch list holds
  pointers to constraints that other variables own; a constraint is pointed to by the
  Boolean variable whose \<^verbatim>\<open>var_info\<close> owns it. \<^verbatim>\<open>m_lit_watch[2]\<close> and
  \<^verbatim>\<open>m_lit_cwatch[2]\<close> are pairs, indexed by the sign of the watched literal.
\<close>

record var_info =
  m_lit_watch_0 :: "nat list option"
  m_lit_watch_1 :: "nat list option"
  m_var_watch :: "nat list option"
  m_ineq :: "ineq option"
  m_lit_cwatch_0 :: "nat list option"
  m_lit_cwatch_1 :: "nat list option"
  m_card :: "card option"

text \<open>The constructor \<^verbatim>\<open>var_info()\<close>: every pointer is null.\<close>

definition var_info_init :: var_info where
  "var_info_init =
     \<lparr>m_lit_watch_0 = None, m_lit_watch_1 = None, m_var_watch = None, m_ineq = None,
      m_lit_cwatch_0 = None, m_lit_cwatch_1 = None, m_card = None\<rparr>"

text \<open>
  The data members of \<^verbatim>\<open>class theory_pb\<close>, in the order of the header. The types
  \<^verbatim>\<open>theory_pb_params\<close> and \<^verbatim>\<open>simplex\<close> are defined in other files and stay open
  (\<open>'params\<close>, \<open>'simplex\<close>). The maps \<^verbatim>\<open>m_ineq_rep\<close> and \<^verbatim>\<open>m_ineq_row_info\<close> are
  partial functions, the sets \<^verbatim>\<open>m_vars\<close> and \<^verbatim>\<open>m_seen\<close> are sets of variables, and
  \<^verbatim>\<open>m_to_compile\<close> holds its constraints by their owning variables. The number
  managers and the \<^verbatim>\<open>pb_util\<close> helper carry no state of the plugin and are left out.
  The conflict bound \<^verbatim>\<open>m_bound\<close> is \<open>m_conflict_bound\<close> here, the name \<open>m_bound\<close> being
  taken by \<^verbatim>\<open>row_info\<close>.
\<close>

record ('params, 'simplex) theory_pb =
  m_params :: 'params
  m_var_infos :: "var_info list"
  m_ineq_rep :: "arg_t \<rightharpoonup> nat"
  m_ineq_row_info :: "nat \<rightharpoonup> row_info"
  m_vars :: "nat set"
  m_simplex :: 'simplex
  m_explain_lower :: "smt_literal list"
  m_explain_upper :: "smt_literal list"
  m_ineqs_trail :: "nat list"
  m_ineqs_lim :: "nat list"
  m_literals :: "smt_literal list"
  m_stats :: stats
  m_to_compile :: "nat list"
  m_conflict_frequency :: nat
  m_learn_complements :: bool
  m_enable_compilation :: bool
  m_max_compiled_coeff :: int
  m_card_trail :: "nat list"
  m_card_lim :: "nat list"
  m_num_marks :: nat
  m_resolved :: "smt_literal list"
  m_conflict_lvl :: nat
  m_coeffs :: "int list"
  m_active_coeffs :: "nat list"
  m_conflict_bound :: int
  m_antecedents :: "smt_literal list"
  m_seen :: "nat set"
  m_seen_trail :: "nat list"

text \<open>
  \<^verbatim>\<open>virtual bool internalize_term(app * term) { UNREACHABLE(); return false; }\<close>
  The macro \<^verbatim>\<open>UNREACHABLE()\<close> is defined outside the sources. Modelled from the spec:
  a contract failure is checked only in the verification build, where it stops the run;
  in production the macro does nothing and the function goes on to return false. The
  term is not looked at, so its type is left open.
\<close>

definition internalize_term ::
  "bool \<Rightarrow> ('params, 'simplex) theory_pb \<Rightarrow> 'app \<Rightarrow>
     error + (bool \<times> ('params, 'simplex) theory_pb)" where
  "internalize_term dbg th t = (if dbg then Inl UnreachableReached else Inr (False, th))"

text \<open>The other callbacks whose bodies the header gives.\<close>

definition new_diseq_eh ::
  "('params, 'simplex) theory_pb \<Rightarrow> nat \<Rightarrow> nat \<Rightarrow> ('params, 'simplex) theory_pb" where
  "new_diseq_eh th v1 v2 = th"

definition use_diseqs :: "('params, 'simplex) theory_pb \<Rightarrow> bool" where
  "use_diseqs th = False"

definition build_models :: "('params, 'simplex) theory_pb \<Rightarrow> bool" where
  "build_models th = False"

definition include_func_interp :: "('params, 'simplex) theory_pb \<Rightarrow> 'f \<Rightarrow> bool" where
  "include_func_interp th f = False"

section \<open>A member function the header only declares\<close>

text \<open>
  The body of \<^verbatim>\<open>arg_t::negate\<close> is in theory_pb.cpp, which is not part of the
  sources. It is modelled here from the words of the specification.
\<close>

subsection \<open>Truth values of literals\<close>

text \<open>
  Modelled from the spec: a total assignment gives every Boolean variable a value; the
  literal with \<open>sign\<close> false holds when its variable is true, the negated literal
  when it is false.
\<close>

definition lit_true :: "(nat \<Rightarrow> bool) \<Rightarrow> smt_literal \<Rightarrow> bool" where
  "lit_true M l = (M (var l) \<noteq> sign l)"

subsection \<open>arg\_t::negate\<close>

text \<open>
  Modelled from the spec: what an argument list says of a total assignment. The value
  of the left-hand side \<open>\<Sum> c\<^sub>i l\<^sub>i\<close> counts a literal 1 when it holds and 0 when it does
  not; the list encodes the constraint \<open>\<Sum> c\<^sub>i l\<^sub>i \<ge> k\<close> (the header's comment on
  \<^verbatim>\<open>m_args\<close>: \<^verbatim>\<open>args[0]*coeffs[0]+...+args[n-1]*coeffs[n-1] >= k()\<close>).
\<close>

definition arg_sum :: "(nat \<Rightarrow> bool) \<Rightarrow> arg_t \<Rightarrow> int" where
  "arg_sum M a = sum_list (map (\<lambda>p. if lit_true M (fst p) then snd p else 0) (elems a))"

definition arg_ge :: "(nat \<Rightarrow> bool) \<Rightarrow> arg_t \<Rightarrow> bool" where
  "arg_ge M a = (m_k a \<le> arg_sum M a)"

text \<open>
  Modelled from the spec: \<^verbatim>\<open>void arg_t::negate()\<close>, which the header declares and
  whose body is missing. The specification (4.1): negate flips polarities and
  recomputes the bound for the logical negation of a \<open>\<ge>\<close>-constraint, the new bound
  being \<open>\<Sum> c\<^sub>i - k + 1\<close>. The coefficients stay as they are.
\<close>

definition arg_negate :: "arg_t \<Rightarrow> arg_t" where
  "arg_negate a =
     \<lparr>elems = map (\<lambda>p. (lit_neg (fst p), snd p)) (elems a),
      m_k = sum_list (map snd (elems a)) - m_k a + 1\<rparr>"

section \<open>A constraint of the specification's scenarios\<close>

text \<open>
  Scenario 2: \<open>2a + 3b + c \<ge> 4\<close>, with \<open>a\<close>, \<open>b\<close>, \<open>c\<close> the variables 0, 1, 2 and the
  reified literal on variable 3. The second argument list is the negation of the first.
\<close>

definition pb_2a_3b_c_ge_4 :: ineq where
  "pb_2a_3b_c_ge_4 =
     \<lparr>m_lit = Lit 3 False, m_is_eq = False,
      m_args_0 = \<lparr>elems = [(Lit 0 False, 2), (Lit 1 False, 3), (Lit 2 False, 1)], m_k = 4\<rparr>,
      m_args_1 = \<lparr>elems = [(Lit 0 True, 2), (Lit 1 True, 3), (Lit 2 True, 1)], m_k = 3\<rparr>,
      m_max_watch = 0, m_watch_sz = 0, m_watch_sum = 0, m_nfixed = 0, m_max_sum = 0,
      m_min_sum = 0, m_ineq_num_propagations = 0, m_ineq_compilation_threshold = 0,
      m_ineq_compiled = l_false\<rparr>"

section \<open>Properties of the code in the header\<close>

subsection \<open>find\_lit\<close>

lemma lit_in_range: "lit c i = Inr l \<Longrightarrow> i < size_ineq c"
  by (auto simp: lit_def arg_lit_def arg_at_def size_ineq_def split: if_splits)

lemma find_lit_scan:
  "b \<le> i \<Longrightarrow> i < e \<Longrightarrow> lit c i = Inr l \<Longrightarrow> var l = v \<Longrightarrow>
   \<exists>r l'. find_lit dbg c v b e = Inr r \<and> b \<le> r \<and> r \<le> i \<and> lit c r = Inr l' \<and> var l' = v \<and>
     (\<forall>j l''. b \<le> j \<and> j < r \<and> lit c j = Inr l'' \<longrightarrow> var l'' \<noteq> v)"
proof (induction "i - b" arbitrary: b)
  case 0
  then have "b = i" by simp
  with 0 show ?case by (auto simp: find_lit.simps [of dbg c v i e])
next
  case (Suc n)
  then have bi: "b < i" by simp
  with Suc.prems have "b < size_ineq c" using lit_in_range [of c i l] by simp
  then obtain lb where lb: "lit c b = Inr lb"
    by (auto simp: lit_def arg_lit_def arg_at_def size_ineq_def)
  show ?case
  proof (cases "var lb = v")
    case True
    with lb bi show ?thesis by (auto simp: find_lit.simps [of dbg c v b e])
  next
    case False
    have "n = i - Suc b" using Suc.hyps(2) by simp
    moreover have "Suc b \<le> i" using bi by simp
    ultimately obtain r l' where r:
      "find_lit dbg c v (Suc b) e = Inr r" "Suc b \<le> r" "r \<le> i" "lit c r = Inr l'" "var l' = v"
      "\<forall>j l''. Suc b \<le> j \<and> j < r \<and> lit c j = Inr l'' \<longrightarrow> var l'' \<noteq> v"
      using Suc.hyps(1) [of "Suc b"] Suc.prems by blast
    have "Suc b < e" using bi Suc.prems by simp
    with False lb r(1) have "find_lit dbg c v b e = Inr r"
      by (simp add: find_lit.simps [of dbg c v b e])
    moreover have "\<forall>j l''. b \<le> j \<and> j < r \<and> lit c j = Inr l'' \<longrightarrow> var l'' \<noteq> v"
    proof (intro allI impI)
      fix j l''
      assume a: "b \<le> j \<and> j < r \<and> lit c j = Inr l''"
      show "var l'' \<noteq> v"
      proof (cases "j = b")
        case True
        with a lb False show ?thesis by simp
      next
        case False
        with a r(6) show ?thesis by (metis Suc_leI le_neq_implies_less)
      qed
    qed
    ultimately show ?thesis using r by (intro exI [of _ r] exI [of _ l']) simp
  qed
qed

text \<open>
  C10. For an \<^verbatim>\<open>ineq\<close> \<open>c\<close>, a variable \<open>v\<close> and indices \<open>begin \<le> end \<le> size()\<close> such
  that \<open>v\<close> is the variable of the literal at some index \<open>i\<close> of \<open>[begin, end)\<close>,
  \<open>find_lit\<close> returns (it is a total function, and the result is neither the
  out-of-range read nor the failed assertion), and what it returns is the least index
  from \<open>begin\<close> on whose literal has variable \<open>v\<close>; that index lies in \<open>[begin, end)\<close>.
  This holds with and without the debug assertion.
\<close>

theorem find_lit_least_index:
  assumes "begin \<le> end" and "end \<le> size_ineq c"
    and "begin \<le> i" and "i < end" and "lit c i = Inr l" and "var l = v"
  shows "\<exists>r l'. find_lit dbg c v begin end = Inr r \<and> begin \<le> r \<and> r < end \<and>
           lit c r = Inr l' \<and> var l' = v \<and>
           (\<forall>j l''. begin \<le> j \<and> j < r \<and> lit c j = Inr l'' \<longrightarrow> var l'' \<noteq> v)"
proof -
  obtain r l' where r: "find_lit dbg c v begin end = Inr r" "begin \<le> r" "r \<le> i"
      "lit c r = Inr l'" "var l' = v"
      "\<forall>j l''. begin \<le> j \<and> j < r \<and> lit c j = Inr l'' \<longrightarrow> var l'' \<noteq> v"
    using find_lit_scan [OF assms(3) assms(4) assms(5) assms(6), of dbg] by blast
  have "r < end" using r(3) assms(4) by simp
  with r show ?thesis by blast
qed

theorem find_lit_least_index_witness:
  "(0::nat) \<le> 3 \<and> 3 \<le> size_ineq pb_2a_3b_c_ge_4 \<and> (0::nat) \<le> 2 \<and> (2::nat) < 3 \<and>
   lit pb_2a_3b_c_ge_4 2 = Inr (Lit 2 False) \<and> var (Lit 2 False) = 2 \<and>
   find_lit True pb_2a_3b_c_ge_4 2 0 3 = Inr 2 \<and> find_lit False pb_2a_3b_c_ge_4 2 0 3 = Inr 2"
  using find_lit_least_index [of 0 3 pb_2a_3b_c_ge_4 2 "Lit 2 False" 2 True]
    find_lit_least_index [of 0 3 pb_2a_3b_c_ge_4 2 "Lit 2 False" 2 False]
  by (simp add: find_lit.simps lit_def arg_lit_def arg_at_def arg_size_def size_ineq_def
      args_def pb_2a_3b_c_ge_4_def)

text \<open>
  Where the precondition fails the scan does go wrong: variable 5 does not occur in
  \<open>2a + 3b + c \<ge> 4\<close>, and the scan ends in the failed assertion in the verification
  build and in a read past the last literal without it.
\<close>

lemma find_lit_absent_variable:
  "find_lit True pb_2a_3b_c_ge_4 5 0 3 = Inl AssertionViolation \<and>
   find_lit False pb_2a_3b_c_ge_4 5 0 3 = Inl OutOfRange"
  by (simp add: find_lit.simps lit_def arg_lit_def arg_at_def arg_size_def size_ineq_def
      args_def pb_2a_3b_c_ge_4_def)

subsection \<open>internalize\_term\<close>

text \<open>
  C9. For every term and every state of the plugin, \<open>internalize_term\<close> is a contract
  failure: in the production build it returns false and every data member of the
  plugin is as it was before the call (no constraint, watch, trail entry or row is
  created); in the verification build it trips \<^verbatim>\<open>UNREACHABLE()\<close>.
\<close>

theorem internalize_term_contract_failure:
  "internalize_term False th t = Inr (False, th) \<and>
   internalize_term True th t = Inl UnreachableReached"
  by (simp add: internalize_term_def)

section \<open>Properties of the function modelled from the specification\<close>

subsection \<open>arg\_t::negate\<close>

lemma lit_true_neg: "lit_true M (lit_neg l) = (\<not> lit_true M l)"
  by (auto simp: lit_true_def lit_neg_def)

lemma sum_negated:
  "sum_list (map (\<lambda>p. if lit_true M (lit_neg (fst p)) then snd p else 0) xs) =
   sum_list (map snd xs) - sum_list (map (\<lambda>p. if lit_true M (fst p) then snd p else (0::int)) xs)"
  by (induction xs) (auto simp: lit_true_neg)

lemma arg_sum_negate: "arg_sum M (arg_negate a) = sum_list (map snd (elems a)) - arg_sum M a"
  by (simp add: arg_sum_def arg_negate_def o_def sum_negated [symmetric] cong: if_cong)

lemma lit_neg_involution: "lit_neg (lit_neg l) = l"
  by (simp add: lit_neg_def)

lemma arg_negate_involution: "arg_negate (arg_negate a) = a"
  by (simp add: arg_negate_def o_def lit_neg_involution)

text \<open>
  C6. For every argument list \<open>\<Sum> c\<^sub>i l\<^sub>i \<ge> k\<close>, \<open>negate\<close> replaces every literal by its
  complement, keeps every coefficient and sets the bound to \<open>\<Sum> c\<^sub>i - k + 1\<close>, so that
  the result reads \<open>\<Sum> c\<^sub>i \<not>l\<^sub>i \<ge> \<Sum> c\<^sub>i - k + 1\<close>; under every total assignment the
  result holds exactly when the constraint it was made from does not.
\<close>

theorem arg_negate_is_negation:
  "map fst (elems (arg_negate a)) = map (\<lambda>p. lit_neg (fst p)) (elems a) \<and>
   map snd (elems (arg_negate a)) = map snd (elems a) \<and>
   m_k (arg_negate a) = sum_list (map snd (elems a)) - m_k a + 1 \<and>
   (\<forall>M. arg_ge M (arg_negate a) = (\<not> arg_ge M a))"
proof -
  have "arg_ge M (arg_negate a) = (\<not> arg_ge M a)" for M
  proof -
    have "arg_ge M (arg_negate a) =
          (sum_list (map snd (elems a)) - m_k a + 1 \<le> sum_list (map snd (elems a)) - arg_sum M a)"
      by (simp add: arg_ge_def arg_sum_negate) (simp add: arg_negate_def)
    also have "\<dots> = (arg_sum M a < m_k a)" by linarith
    also have "\<dots> = (\<not> arg_ge M a)" by (simp add: arg_ge_def not_le)
    finally show ?thesis .
  qed
  then show ?thesis by (simp add: arg_negate_def o_def)
qed

end
